theory Spec2Isabelle
  imports Main
begin

section \<open>BoardHub: documents, collections and responses\<close>

text \<open>
  The backend keeps five MongoDB collections (users, boards, board members, lists, cards)
  and answers each request with a status code and a JSON body. A collection is a list of
  documents in storage order; an ObjectId is a natural number. Only the fields that the
  access checks and the ordering code read or write are kept, under the schema's names
  with a prefix for the collection (\<open>l_order\<close> is \<open>order\<close> of a List document).
  The schema type \<open>Number\<close> of \<open>order\<close> is an unbounded integer here: the validators of
  the routes accept integers only.
\<close>

type_synonym oid = nat

text \<open>The \<open>permissions\<close> sub-document of \<open>models/BoardMember.js\<close>, lines 35 to 84.\<close>

record permissions =
  canEditBoard :: bool
  canDeleteBoard :: bool
  canInviteMembers :: bool
  canRemoveMembers :: bool
  canCreateLists :: bool
  canEditLists :: bool
  canDeleteLists :: bool
  canCreateCards :: bool
  canEditCards :: bool
  canDeleteCards :: bool
  canMoveCards :: bool
  canComment :: bool

record user_doc =
  u_id :: oid
  u_email :: string

record board_doc =
  b_id :: oid
  b_owner :: oid
  b_isPublic :: bool

record member_doc =
  m_id :: oid
  m_board :: oid
  m_user :: oid
  m_role :: string
  m_invitedBy :: "oid option"
  m_isActive :: bool
  m_permissions :: permissions

record list_doc =
  l_id :: oid
  l_title :: string
  l_description :: "string option"
  l_color :: "string option"
  l_board :: oid
  l_order :: int
  l_createdBy :: oid

record card_doc =
  c_id :: oid
  c_title :: string
  c_list :: oid
  c_board :: oid
  c_order :: int
  c_createdBy :: oid

text \<open>
  The database. \<open>next_id\<close> stands for the ObjectId generator: every created document
  takes the current value as its \<open>_id\<close> and advances it.
\<close>

record db =
  users :: "user_doc list"
  boards :: "board_doc list"
  members :: "member_doc list"
  lists :: "list_doc list"
  cards :: "card_doc list"
  next_id :: oid

text \<open>The body \<open>{ success, message }\<close> sent with \<open>res.status(code).json(...)\<close>.\<close>

record response =
  status :: nat
  success :: bool
  message :: string

definition fail :: "nat \<Rightarrow> string \<Rightarrow> response" where
  "fail code msg = \<lparr>status = code, success = False, message = msg\<rparr>"

definition ok :: "nat \<Rightarrow> string \<Rightarrow> response" where
  "ok code msg = \<lparr>status = code, success = True, message = msg\<rparr>"

text \<open>
  Modelled from the spec: the \<open>validate\<close> middleware (\<open>middleware/validate\<close>) is not among
  the sources. Section 1 of the specification names request validation as work of the HTTP
  layer in front of the core, and the API documentation of every route lists status 400,
  "Validation error": a request whose validator chain fails is answered with this response
  and no later middleware or handler runs.
\<close>

definition validation_error :: response where
  "validation_error = fail 400 ''Validation error''"

subsection \<open>Query primitives\<close>

text \<open>
  \<open>updateOne\<close>, \<open>findByIdAndUpdate\<close>, \<open>findOneAndUpdate\<close> and \<open>doc.save()\<close> change the
  first document that matches; \<open>findByIdAndDelete\<close> removes it; \<open>updateMany\<close> is
  \<open>map\<close> with a condition; \<open>findOne\<close> and \<open>findById\<close> are \<open>find\<close>.
\<close>

fun update_first :: "('a \<Rightarrow> bool) \<Rightarrow> ('a \<Rightarrow> 'a) \<Rightarrow> 'a list \<Rightarrow> 'a list" where
  "update_first P f [] = []"
| "update_first P f (x # xs) = (if P x then f x # xs else x # update_first P f xs)"

fun remove_first :: "('a \<Rightarrow> bool) \<Rightarrow> 'a list \<Rightarrow> 'a list" where
  "remove_first P [] = []"
| "remove_first P (x # xs) = (if P x then xs else x # remove_first P xs)"

text \<open>
  \<open>findOne(filter).sort({ order: -1 })\<close> on the documents that passed the filter: a
  document of greatest order, the earliest stored one among equals.
\<close>

fun find_last :: "('a \<Rightarrow> int) \<Rightarrow> 'a list \<Rightarrow> 'a option" where
  "find_last k [] = None"
| "find_last k (x # xs) =
     (case find_last k xs of
        None \<Rightarrow> Some x
      | Some y \<Rightarrow> if k x < k y then Some y else Some x)"

section \<open>Board members: permissions from the role\<close>

text \<open>
  \<open>boardMemberSchema.pre('save')\<close>, \<open>models/BoardMember.js\<close> lines 94 to 163: a
  \<open>switch\<close> on the role with four cases and no default, so any other role leaves the
  permissions as they are.
\<close>

definition boardMember_pre_save :: "member_doc \<Rightarrow> member_doc" where
  "boardMember_pre_save m =
     (if m_role m = ''owner'' then
        m\<lparr>m_permissions := \<lparr>canEditBoard = True, canDeleteBoard = True,
          canInviteMembers = True, canRemoveMembers = True, canCreateLists = True,
          canEditLists = True, canDeleteLists = True, canCreateCards = True,
          canEditCards = True, canDeleteCards = True, canMoveCards = True,
          canComment = True\<rparr>\<rparr>
      else if m_role m = ''admin'' then
        m\<lparr>m_permissions := \<lparr>canEditBoard = True, canDeleteBoard = False,
          canInviteMembers = True, canRemoveMembers = True, canCreateLists = True,
          canEditLists = True, canDeleteLists = True, canCreateCards = True,
          canEditCards = True, canDeleteCards = True, canMoveCards = True,
          canComment = True\<rparr>\<rparr>
      else if m_role m = ''editor'' then
        m\<lparr>m_permissions := \<lparr>canEditBoard = False, canDeleteBoard = False,
          canInviteMembers = False, canRemoveMembers = False, canCreateLists = True,
          canEditLists = True, canDeleteLists = False, canCreateCards = True,
          canEditCards = True, canDeleteCards = False, canMoveCards = True,
          canComment = True\<rparr>\<rparr>
      else if m_role m = ''viewer'' then
        m\<lparr>m_permissions := \<lparr>canEditBoard = False, canDeleteBoard = False,
          canInviteMembers = False, canRemoveMembers = False, canCreateLists = False,
          canEditLists = False, canDeleteLists = False, canCreateCards = False,
          canEditCards = False, canDeleteCards = False, canMoveCards = False,
          canComment = False\<rparr>\<rparr>
      else m)"

text \<open>
  The schema's defaults for a new member (lines 14 to 84): role \<open>viewer\<close>, active, and
  the default permission bits, used for every field the caller leaves out.
\<close>

definition default_permissions :: permissions where
  "default_permissions = \<lparr>canEditBoard = False, canDeleteBoard = False,
     canInviteMembers = False, canRemoveMembers = False, canCreateLists = True,
     canEditLists = True, canDeleteLists = False, canCreateCards = True,
     canEditCards = True, canDeleteCards = False, canMoveCards = True,
     canComment = True\<rparr>"

definition role_enum :: "string list" where
  "role_enum = [''owner'', ''admin'', ''editor'', ''viewer'']"

text \<open>
  \<open>BoardMember.create(fields)\<close>: a new document with the schema defaults, validated (the
  role must be in the schema's enum), passed through the save hook and inserted. The
  unique index on (board, user), line 90, refuses a second document for the pair.
  \<open>None\<close> is the thrown error.
\<close>

definition boardMember_create ::
  "oid \<Rightarrow> oid \<Rightarrow> string \<Rightarrow> oid option \<Rightarrow> permissions option \<Rightarrow> db \<Rightarrow> db option" where
  "boardMember_create board user role invitedBy perms d =
     (if role \<notin> set role_enum then None
      else if \<exists>m \<in> set (members d). m_board m = board \<and> m_user m = user then None
      else Some (d\<lparr>members := members d @
             [boardMember_pre_save
                \<lparr>m_id = next_id d, m_board = board, m_user = user, m_role = role,
                 m_invitedBy = invitedBy, m_isActive = True,
                 m_permissions = (case perms of None \<Rightarrow> default_permissions | Some p \<Rightarrow> p)\<rparr>],
           next_id := Suc (next_id d)\<rparr>))"

section \<open>Lists\<close>

text \<open>
  A request reaches a handler after \<open>validate\<close> and \<open>protect\<close>: it carries the id of the
  authenticated user (\<open>req.user._id\<close>), the path parameters and the body fields. Path
  ids are ObjectIds, so \<open>isMongoId\<close> holds of them. The validators of title, description
  and colour (length bounds after trimming) are not part of the model: a body holds
  values that passed them.
\<close>

text \<open>What \<open>checkListAccess\<close> leaves on \<open>req\<close> for the handler.\<close>

record list_ctx =
  req_list :: list_doc
  req_board :: board_doc
  req_userRole :: string
  req_membership :: "member_doc option"

definition findById_list :: "db \<Rightarrow> oid \<Rightarrow> list_doc option" where
  "findById_list d i = find (\<lambda>l. l_id l = i) (lists d)"

definition findById_board :: "db \<Rightarrow> oid \<Rightarrow> board_doc option" where
  "findById_board d i = find (\<lambda>b. b_id b = i) (boards d)"

text \<open>\<open>BoardMember.findOne({ board, user, isActive: true })\<close>.\<close>

definition findOne_member :: "db \<Rightarrow> oid \<Rightarrow> oid \<Rightarrow> member_doc option" where
  "findOne_member d b u =
     find (\<lambda>m. m_board m = b \<and> m_user m = u \<and> m_isActive m) (members d)"

text \<open>
  \<open>checkListAccess\<close>, \<open>routes/lists.js\<close> lines 13 to 65. \<open>populate('board')\<close> gives
  \<open>null\<close> for a board that is gone; reading \<open>board.owner\<close> then throws, and the
  \<open>catch\<close> answers 500.
\<close>

definition checkListAccess :: "db \<Rightarrow> oid \<Rightarrow> oid \<Rightarrow> response + list_ctx" where
  "checkListAccess d uid listId =
     (case findById_list d listId of
        None \<Rightarrow> Inl (fail 404 ''List not found'')
      | Some list \<Rightarrow>
          (case findById_board d (l_board list) of
             None \<Rightarrow> Inl (fail 500 ''Failed to check list access'')
           | Some board \<Rightarrow>
               if b_owner board = uid then
                 Inr \<lparr>req_list = list, req_board = board, req_userRole = ''owner'',
                      req_membership = None\<rparr>
               else if b_isPublic board then
                 Inr \<lparr>req_list = list, req_board = board, req_userRole = ''viewer'',
                      req_membership = None\<rparr>
               else
                 (case findOne_member d (b_id board) uid of
                    None \<Rightarrow> Inl (fail 403 ''Access denied'')
                  | Some membership \<Rightarrow>
                      Inr \<lparr>req_list = list, req_board = board,
                           req_userRole = m_role membership,
                           req_membership = Some membership\<rparr>)))"

text \<open>
  The guard of the update and reorder handlers (lines 558 and 765):
  \<open>req.userRole !== 'owner' && req.membership && !req.membership.permissions.canEditLists\<close>,
  and the one of the delete handler (line 655) with \<open>canDeleteLists\<close>.
\<close>

definition edit_denied :: "list_ctx \<Rightarrow> bool" where
  "edit_denied ctx =
     (req_userRole ctx \<noteq> ''owner'' \<and>
      (case req_membership ctx of
         None \<Rightarrow> False
       | Some m \<Rightarrow> \<not> canEditLists (m_permissions m)))"

definition delete_denied :: "list_ctx \<Rightarrow> bool" where
  "delete_denied ctx =
     (req_userRole ctx \<noteq> ''owner'' \<and>
      (case req_membership ctx of
         None \<Rightarrow> False
       | Some m \<Rightarrow> \<not> canDeleteLists (m_permissions m)))"

text \<open>The body of \<open>PUT /api/lists/:id\<close>; \<open>None\<close> is a field the body leaves out.\<close>

record list_update =
  upd_title :: "string option"
  upd_description :: "string option"
  upd_color :: "string option"

definition apply_update :: "list_update \<Rightarrow> list_doc \<Rightarrow> list_doc" where
  "apply_update u l =
     l\<lparr>l_title := (case upd_title u of None \<Rightarrow> l_title l | Some t \<Rightarrow> t),
       l_description := (case upd_description u of None \<Rightarrow> l_description l | Some x \<Rightarrow> Some x),
       l_color := (case upd_color u of None \<Rightarrow> l_color l | Some c \<Rightarrow> Some c)\<rparr>"

text \<open>\<open>router.put('/:id')\<close>, lines 537 to 592.\<close>

definition put_list :: "db \<Rightarrow> oid \<Rightarrow> oid \<Rightarrow> list_update \<Rightarrow> response \<times> db" where
  "put_list d uid listId u =
     (case checkListAccess d uid listId of
        Inl r \<Rightarrow> (r, d)
      | Inr ctx \<Rightarrow>
          if edit_denied ctx then
            (fail 403 ''You do not have permission to edit this list'', d)
          else
            (ok 200 ''List updated successfully'',
             d\<lparr>lists := update_first (\<lambda>l. l_id l = listId) (apply_update u) (lists d)\<rparr>))"

text \<open>\<open>router.delete('/:id')\<close>, lines 650 to 677.\<close>

definition delete_list :: "db \<Rightarrow> oid \<Rightarrow> oid \<Rightarrow> response \<times> db" where
  "delete_list d uid listId =
     (case checkListAccess d uid listId of
        Inl r \<Rightarrow> (r, d)
      | Inr ctx \<Rightarrow>
          if delete_denied ctx then
            (fail 403 ''You do not have permission to delete this list'', d)
          else
            (ok 200 ''List deleted successfully'',
             d\<lparr>lists := remove_first (\<lambda>l. l_id l = listId) (lists d)\<rparr>))"

text \<open>
  \<open>listSchema.pre('save')\<close>, \<open>models/List.js\<close> lines 88 to 99: a new list takes the
  greatest order of its board plus one, or 0 on a board without lists, whatever order
  it was created with; a list that is saved again keeps its order.
\<close>

definition list_pre_save :: "db \<Rightarrow> bool \<Rightarrow> list_doc \<Rightarrow> list_doc" where
  "list_pre_save d isNew l =
     (if isNew then
        (case find_last l_order (filter (\<lambda>x. l_board x = l_board l) (lists d)) of
           Some lastList \<Rightarrow> l\<lparr>l_order := l_order lastList + 1\<rparr>
         | None \<Rightarrow> l\<lparr>l_order := 0\<rparr>)
      else l)"

text \<open>
  The reordering step of \<open>router.put('/:id/reorder')\<close>, lines 772 to 804: the list is
  read, the siblings between the old and the new position are shifted with
  \<open>updateMany\<close>, and the list read before is saved with the new order. A list that
  is not found makes \<open>list.order\<close> throw, which the \<open>catch\<close> answers with 500.
\<close>

definition reorder_step :: "db \<Rightarrow> oid \<Rightarrow> int \<Rightarrow> response \<times> db" where
  "reorder_step d listId newOrder =
     (case findById_list d listId of
        None \<Rightarrow> (fail 500 ''Failed to reorder list'', d)
      | Some list \<Rightarrow>
          let currentOrder = l_order list in
          if currentOrder = newOrder then (ok 200 ''List order unchanged'', d)
          else
            let shifted =
                  (if currentOrder < newOrder then
                     map (\<lambda>l. if l_board l = l_board list \<and> currentOrder < l_order l
                                  \<and> l_order l \<le> newOrder
                               then l\<lparr>l_order := l_order l - 1\<rparr> else l) (lists d)
                   else
                     map (\<lambda>l. if l_board l = l_board list \<and> newOrder \<le> l_order l
                                  \<and> l_order l < currentOrder
                               then l\<lparr>l_order := l_order l + 1\<rparr> else l) (lists d));
                d1 = d\<lparr>lists := shifted\<rparr>;
                saved = list_pre_save d1 False (list\<lparr>l_order := newOrder\<rparr>)
            in (ok 200 ''List reordered successfully'',
                d1\<lparr>lists := update_first (\<lambda>l. l_id l = l_id saved)
                                 (\<lambda>l. l\<lparr>l_order := l_order saved\<rparr>) shifted\<rparr>))"

text \<open>
  \<open>router.put('/:id/reorder')\<close>, lines 755 to 812: the validator
  \<open>body('newOrder').isInt({ min: 1 })\<close>, the access check, the edit guard, the step.
\<close>

definition put_list_reorder :: "db \<Rightarrow> oid \<Rightarrow> oid \<Rightarrow> int \<Rightarrow> response \<times> db" where
  "put_list_reorder d uid listId newOrder =
     (if \<not> 1 \<le> newOrder then (validation_error, d)
      else
        (case checkListAccess d uid listId of
           Inl r \<Rightarrow> (r, d)
         | Inr ctx \<Rightarrow>
             if edit_denied ctx then
               (fail 403 ''You do not have permission to reorder this list'', d)
             else reorder_step d listId newOrder))"

text \<open>
  \<open>List.create(fields)\<close>: a new document with a fresh id goes through the save hook
  as a new one and is inserted.
\<close>

definition list_create ::
  "string \<Rightarrow> oid \<Rightarrow> string option \<Rightarrow> string option \<Rightarrow> int \<Rightarrow> oid \<Rightarrow> db \<Rightarrow> db" where
  "list_create title board description color ord createdBy d =
     d\<lparr>lists := lists d @
          [list_pre_save d True
             \<lparr>l_id = next_id d, l_title = title, l_description = description,
              l_color = color, l_board = board, l_order = ord, l_createdBy = createdBy\<rparr>],
       next_id := Suc (next_id d)\<rparr>"

text \<open>
  \<open>router.post('/')\<close>, lines 369 to 446. The handler computes an order too
  (greatest plus one, or 1) and passes it to \<open>List.create\<close>.
\<close>

definition post_list ::
  "db \<Rightarrow> oid \<Rightarrow> string \<Rightarrow> oid \<Rightarrow> string option \<Rightarrow> string option \<Rightarrow> response \<times> db" where
  "post_list d uid title boardId description color =
     (case findById_board d boardId of
        None \<Rightarrow> (fail 404 ''Board not found'', d)
      | Some board \<Rightarrow>
          if b_owner board \<noteq> uid \<and>
             (case findOne_member d boardId uid of
                None \<Rightarrow> True
              | Some membership \<Rightarrow> \<not> canCreateLists (m_permissions membership))
          then (fail 403 ''You do not have permission to create lists on this board'', d)
          else
            let ord = (case find_last l_order (filter (\<lambda>l. l_board l = boardId) (lists d)) of
                         Some lastList \<Rightarrow> l_order lastList + 1
                       | None \<Rightarrow> 1)
            in (ok 201 ''List created successfully'',
                list_create title boardId description color ord uid d))"


section \<open>Cards\<close>

text \<open>
  The routes of the cards, \<open>routes/cards.js\<close> (the source part 006). Each handler is
  modelled as it runs once the router has chosen it. How Express chooses among the
  registered routes is not modelled; the file registers \<open>PUT /:id\<close> (line 492) before
  \<open>PUT /reorder\<close> (line 754).
\<close>

record card_ctx =
  creq_card :: card_doc
  creq_board :: board_doc
  creq_userRole :: string
  creq_membership :: "member_doc option"

definition findById_card :: "db \<Rightarrow> oid \<Rightarrow> card_doc option" where
  "findById_card d i = find (\<lambda>c. c_id c = i) (cards d)"

text \<open>\<open>checkCardAccess\<close>, lines 13 to 68; the board is the card's own \<open>board\<close>, populated.\<close>

definition checkCardAccess :: "db \<Rightarrow> oid \<Rightarrow> oid \<Rightarrow> response + card_ctx" where
  "checkCardAccess d uid cardId =
     (case findById_card d cardId of
        None \<Rightarrow> Inl (fail 404 ''Card not found'')
      | Some theCard \<Rightarrow>
          (case findById_board d (c_board theCard) of
             None \<Rightarrow> Inl (fail 500 ''Failed to check card access'')
           | Some board \<Rightarrow>
               if b_owner board = uid then
                 Inr \<lparr>creq_card = theCard, creq_board = board, creq_userRole = ''owner'',
                      creq_membership = None\<rparr>
               else if b_isPublic board then
                 Inr \<lparr>creq_card = theCard, creq_board = board, creq_userRole = ''viewer'',
                      creq_membership = None\<rparr>
               else
                 (case findOne_member d (b_id board) uid of
                    None \<Rightarrow> Inl (fail 403 ''Access denied'')
                  | Some membership \<Rightarrow>
                      Inr \<lparr>creq_card = theCard, creq_board = board,
                           creq_userRole = m_role membership,
                           creq_membership = Some membership\<rparr>)))"

text \<open>
  The guard of the move handler, lines 620 to 627: owner and admin pass, anyone else needs
  \<open>req.membership?.permissions?.canMoveCards\<close>.
\<close>

definition move_denied :: "card_ctx \<Rightarrow> bool" where
  "move_denied ctx =
     (creq_userRole ctx \<noteq> ''owner'' \<and> creq_userRole ctx \<noteq> ''admin'' \<and>
      (case creq_membership ctx of
         None \<Rightarrow> True
       | Some m \<Rightarrow> \<not> canMoveCards (m_permissions m)))"

text \<open>
  \<open>router.patch('/:id/move')\<close>, lines 608 to 667. The body's \<open>order\<close> is optional and
  validated with \<open>isInt({ min: 0 })\<close>; the target list must exist and be of the
  card's board; the card then takes the list and the order, 0 when none is given.
\<close>

definition patch_card_move ::
  "db \<Rightarrow> oid \<Rightarrow> oid \<Rightarrow> oid \<Rightarrow> int option \<Rightarrow> response \<times> db" where
  "patch_card_move d uid cardId listId ord =
     (if (case ord of None \<Rightarrow> False | Some n \<Rightarrow> \<not> 0 \<le> n) then (validation_error, d)
      else
        (case checkCardAccess d uid cardId of
           Inl r \<Rightarrow> (r, d)
         | Inr ctx \<Rightarrow>
             if move_denied ctx then
               (fail 403 ''You do not have permission to move this card'', d)
             else
               (case findById_list d listId of
                  None \<Rightarrow>
                    (fail 400 ''Target list not found or does not belong to the same board'', d)
                | Some targetList \<Rightarrow>
                    if l_board targetList \<noteq> b_id (creq_board ctx) then
                      (fail 400 ''Target list not found or does not belong to the same board'', d)
                    else
                      (ok 200 ''Card moved successfully'',
                       d\<lparr>cards := update_first (\<lambda>c. c_id c = cardId)
                            (\<lambda>c. c\<lparr>c_list := listId,
                                   c_order := (case ord of Some n \<Rightarrow> n | None \<Rightarrow> 0)\<rparr>)
                            (cards d)\<rparr>))))"






section \<open>Boards and their members\<close>

record board_ctx =
  breq_board :: board_doc
  breq_userRole :: string
  breq_membership :: "member_doc option"

text \<open>\<open>checkBoardAccess\<close>, \<open>routes/boards.js\<close> lines 13 to 65.\<close>

definition checkBoardAccess :: "db \<Rightarrow> oid \<Rightarrow> oid \<Rightarrow> response + board_ctx" where
  "checkBoardAccess d uid boardId =
     (case findById_board d boardId of
        None \<Rightarrow> Inl (fail 404 ''Board not found'')
      | Some board \<Rightarrow>
          if b_owner board = uid then
            Inr \<lparr>breq_board = board, breq_userRole = ''owner'', breq_membership = None\<rparr>
          else if b_isPublic board then
            Inr \<lparr>breq_board = board, breq_userRole = ''viewer'', breq_membership = None\<rparr>
          else
            (case findOne_member d boardId uid of
               None \<Rightarrow> Inl (fail 403 ''Access denied'')
             | Some membership \<Rightarrow>
                 Inr \<lparr>breq_board = board, breq_userRole = m_role membership,
                      breq_membership = Some membership\<rparr>))"

text \<open>
  \<open>router.post('/')\<close>, lines 312 to 390: the board is created with the requester as its
  owner, then a member document for the owner with role \<open>owner\<close> and every permission.
  When that second create throws, the board stays and the answer is 500.
\<close>

definition all_permissions :: permissions where
  "all_permissions = \<lparr>canEditBoard = True, canDeleteBoard = True,
     canInviteMembers = True, canRemoveMembers = True, canCreateLists = True,
     canEditLists = True, canDeleteLists = True, canCreateCards = True,
     canEditCards = True, canDeleteCards = True, canMoveCards = True,
     canComment = True\<rparr>"

definition post_board :: "db \<Rightarrow> oid \<Rightarrow> bool option \<Rightarrow> response \<times> db" where
  "post_board d uid isPublic =
     (let board = \<lparr>b_id = next_id d, b_owner = uid,
                   b_isPublic = (case isPublic of Some p \<Rightarrow> p | None \<Rightarrow> False)\<rparr>;
          d1 = d\<lparr>boards := boards d @ [board], next_id := Suc (next_id d)\<rparr>
      in case boardMember_create (b_id board) uid ''owner'' None (Some all_permissions) d1 of
           None \<Rightarrow> (fail 500 ''Failed to create board'', d1)
         | Some d2 \<Rightarrow> (ok 201 ''Board created successfully'', d2))"

text \<open>The validator of the role in the two member routes: \<open>isIn(['admin', 'editor', 'viewer'])\<close>.\<close>

definition role_valid :: "string \<Rightarrow> bool" where
  "role_valid role = (role \<in> set [''admin'', ''editor'', ''viewer''])"

text \<open>
  \<open>router.post('/:id/members')\<close>, lines 828 to 906: invite the user with the given
  e-mail address. The address validator is not modelled.
\<close>

definition post_member :: "db \<Rightarrow> oid \<Rightarrow> oid \<Rightarrow> string \<Rightarrow> string \<Rightarrow> response \<times> db" where
  "post_member d uid boardId email role =
     (if \<not> role_valid role then (validation_error, d)
      else
        (case checkBoardAccess d uid boardId of
           Inl r \<Rightarrow> (r, d)
         | Inr ctx \<Rightarrow>
             if breq_userRole ctx \<noteq> ''owner'' \<and> breq_userRole ctx \<noteq> ''admin'' \<and>
                (case breq_membership ctx of
                   None \<Rightarrow> True
                 | Some m \<Rightarrow> \<not> canInviteMembers (m_permissions m))
             then (fail 403 ''You do not have permission to invite members'', d)
             else
               (case find (\<lambda>u. u_email u = email) (users d) of
                  None \<Rightarrow> (fail 404 ''User not found'', d)
                | Some user \<Rightarrow>
                    (case find (\<lambda>m. m_board m = boardId \<and> m_user m = u_id user) (members d) of
                       Some existingMember \<Rightarrow>
                         (fail 400 ''User is already a member of this board'', d)
                     | None \<Rightarrow>
                         (case boardMember_create boardId (u_id user) role (Some uid) None d of
                            None \<Rightarrow> (fail 500 ''Failed to invite member'', d)
                          | Some d1 \<Rightarrow> (ok 201 ''Member invited successfully'', d1))))))"

text \<open>
  \<open>router.put('/:id/members/:memberId')\<close>, lines 911 to 965: owner and admin may change a
  role; \<open>findOneAndUpdate(filter, { role })\<close> writes the role field of the member
  document. Mongoose runs \<open>save\<close> hooks on \<open>save\<close> and \<open>create\<close> only, so the hook
  that derives the permissions does not run here.
\<close>

definition put_member :: "db \<Rightarrow> oid \<Rightarrow> oid \<Rightarrow> oid \<Rightarrow> string \<Rightarrow> response \<times> db" where
  "put_member d uid boardId memberId role =
     (if \<not> role_valid role then (validation_error, d)
      else
        (case checkBoardAccess d uid boardId of
           Inl r \<Rightarrow> (r, d)
         | Inr ctx \<Rightarrow>
             if breq_userRole ctx \<noteq> ''owner'' \<and> breq_userRole ctx \<noteq> ''admin'' then
               (fail 403 ''You do not have permission to manage members'', d)
             else
               (case find (\<lambda>m. m_id m = memberId \<and> m_board m = boardId) (members d) of
                  None \<Rightarrow> (fail 404 ''Member not found'', d)
                | Some membership \<Rightarrow>
                    (ok 200 ''Member role updated successfully'',
                     d\<lparr>members := update_first (\<lambda>m. m_id m = memberId \<and> m_board m = boardId)
                          (\<lambda>m. m\<lparr>m_role := role\<rparr>) (members d)\<rparr>))))"

section \<open>Databases for the concrete cases\<close>


text \<open>
  Ann (1) owns the private boards 2 and 9 and the public board 6; board 9 has no list
  yet, and the list 14 no card. Bob (3) is a viewer of board 2. Eve (5) is a member of
  no board.
\<close>

definition no_permissions :: permissions where
  "no_permissions = \<lparr>canEditBoard = False, canDeleteBoard = False,
     canInviteMembers = False, canRemoveMembers = False, canCreateLists = False,
     canEditLists = False, canDeleteLists = False, canCreateCards = False,
     canEditCards = False, canDeleteCards = False, canMoveCards = False,
     canComment = False\<rparr>"

definition demo_db :: db where
  "demo_db =
     \<lparr>users = [\<lparr>u_id = 1, u_email = ''ann@example.com''\<rparr>,
               \<lparr>u_id = 3, u_email = ''bob@example.com''\<rparr>,
               \<lparr>u_id = 5, u_email = ''eve@example.com''\<rparr>],
      boards = [\<lparr>b_id = 2, b_owner = 1, b_isPublic = False\<rparr>,
                \<lparr>b_id = 6, b_owner = 1, b_isPublic = True\<rparr>,
                \<lparr>b_id = 9, b_owner = 1, b_isPublic = False\<rparr>],
      members = [\<lparr>m_id = 4, m_board = 2, m_user = 1, m_role = ''owner'',
                  m_invitedBy = None, m_isActive = True, m_permissions = all_permissions\<rparr>,
                 \<lparr>m_id = 7, m_board = 6, m_user = 1, m_role = ''owner'',
                  m_invitedBy = None, m_isActive = True, m_permissions = all_permissions\<rparr>,
                 \<lparr>m_id = 8, m_board = 2, m_user = 3, m_role = ''viewer'',
                  m_invitedBy = Some 1, m_isActive = True, m_permissions = no_permissions\<rparr>,
                 \<lparr>m_id = 15, m_board = 9, m_user = 1, m_role = ''owner'',
                  m_invitedBy = None, m_isActive = True, m_permissions = all_permissions\<rparr>],
      lists = [\<lparr>l_id = 10, l_title = ''To do'', l_description = None, l_color = None,
                 l_board = 2, l_order = 0, l_createdBy = 1\<rparr>,
               \<lparr>l_id = 11, l_title = ''Doing'', l_description = None, l_color = None,
                 l_board = 2, l_order = 1, l_createdBy = 1\<rparr>,
               \<lparr>l_id = 13, l_title = ''Ideas'', l_description = None, l_color = None,
                 l_board = 6, l_order = 0, l_createdBy = 1\<rparr>,
               \<lparr>l_id = 14, l_title = ''Votes'', l_description = None, l_color = None,
                 l_board = 6, l_order = 1, l_createdBy = 1\<rparr>],
      cards = [\<lparr>c_id = 20, c_title = ''Write'', c_list = 10, c_board = 2, c_order = 0,
                 c_createdBy = 1\<rparr>,
               \<lparr>c_id = 21, c_title = ''Review'', c_list = 10, c_board = 2, c_order = 1,
                 c_createdBy = 1\<rparr>,
               \<lparr>c_id = 22, c_title = ''Ship'', c_list = 11, c_board = 2, c_order = 0,
                 c_createdBy = 1\<rparr>,
               \<lparr>c_id = 23, c_title = ''Idea'', c_list = 13, c_board = 6, c_order = 0,
                 c_createdBy = 1\<rparr>],
      next_id = 30\<rparr>"

text \<open>The registered users Ann, Bob and Eve before any board exists.\<close>

definition users_db :: db where
  "users_db =
     \<lparr>users = [\<lparr>u_id = 1, u_email = ''ann@example.com''\<rparr>,
               \<lparr>u_id = 3, u_email = ''bob@example.com''\<rparr>,
               \<lparr>u_id = 5, u_email = ''eve@example.com''\<rparr>],
      boards = [], members = [], lists = [], cards = [], next_id = 6\<rparr>"


section \<open>Facts about the query primitives\<close>




lemma findById_card_Some:
  "findById_card d i = Some c \<Longrightarrow> c \<in> set (cards d) \<and> c_id c = i"
  by (auto simp: findById_card_def find_Some_iff)



subsection \<open>The greatest order\<close>

lemma find_last_Nil_iff: "find_last k xs = None \<longleftrightarrow> xs = []"
  by (cases xs) (auto split: option.splits)

lemma find_last_Max:
  "xs \<noteq> [] \<Longrightarrow> \<exists>y. find_last k xs = Some y \<and> y \<in> set xs \<and> k y = Max (k ` set xs)"
proof (induction xs)
  case Nil
  then show ?case by simp
next
  case (Cons x xs)
  show ?case
  proof (cases "xs = []")
    case True
    then show ?thesis by simp
  next
    case False
    with Cons.IH obtain y where y: "find_last k xs = Some y" "y \<in> set xs" "k y = Max (k ` set xs)"
      by blast
    have "Max (k ` set (x # xs)) = max (k x) (Max (k ` set xs))"
      using False by simp
    with y show ?thesis by (auto simp: max_def)
  qed
qed

text \<open>What both save hooks compute from the siblings of a new document.\<close>

lemma next_order_eq:
  fixes k :: "'a \<Rightarrow> int"
  shows "(case find_last k xs of Some y \<Rightarrow> k y + 1 | None \<Rightarrow> 0) =
   (if xs = [] then 0 else 1 + Max (k ` set xs))"
proof (cases "xs = []")
  case True
  then show ?thesis by simp
next
  case False
  from find_last_Max[OF False, of k] obtain y where
    "find_last k xs = Some y" "k y = Max (k ` set xs)" by blast
  with False show ?thesis by simp
qed



subsection \<open>Appending lists and cards\<close>

lemma list_create_lists:
  "lists (list_create t b de co ord u d) = lists d @
     [\<lparr>l_id = next_id d, l_title = t, l_description = de, l_color = co, l_board = b,
       l_order = (if filter (\<lambda>l. l_board l = b) (lists d) = [] then 0
                  else 1 + Max (l_order ` set (filter (\<lambda>l. l_board l = b) (lists d)))),
       l_createdBy = u\<rparr>]"
proof -
  have "list_pre_save d True
          \<lparr>l_id = next_id d, l_title = t, l_description = de, l_color = co, l_board = b,
           l_order = ord, l_createdBy = u\<rparr>
        = \<lparr>l_id = next_id d, l_title = t, l_description = de, l_color = co, l_board = b,
           l_order = (case find_last l_order (filter (\<lambda>l. l_board l = b) (lists d)) of
                        Some y \<Rightarrow> l_order y + 1 | None \<Rightarrow> 0),
           l_createdBy = u\<rparr>"
    by (simp add: list_pre_save_def split: option.splits)
  then show ?thesis
    by (simp only: list_create_def next_order_eq) simp
qed










subsection \<open>Counting the cards of a bulk reorder\<close>




subsection \<open>The create routes\<close>





subsection \<open>The card routes\<close>





subsection \<open>The access check of the lists\<close>

lemma checkListAccess_no_relation:
  assumes "findById_list d listId = Some li"
    and "findById_board d (l_board li) = Some bo"
    and "b_owner bo \<noteq> uid" and "\<not> b_isPublic bo"
    and "findOne_member d (b_id bo) uid = None"
  shows "checkListAccess d uid listId = Inl (fail 403 ''Access denied'')"
  using assms by (simp add: checkListAccess_def)

lemma checkListAccess_member:
  assumes "findById_list d listId = Some li"
    and "findById_board d (l_board li) = Some bo"
    and "b_owner bo \<noteq> uid" and "\<not> b_isPublic bo"
    and "findOne_member d (b_id bo) uid = Some m"
  shows "checkListAccess d uid listId =
     Inr \<lparr>req_list = li, req_board = bo, req_userRole = m_role m, req_membership = Some m\<rparr>"
  using assms by (simp add: checkListAccess_def)

lemma findOne_member_not_owner_role:
  "findOne_member d b u = Some m \<Longrightarrow> m_user m = u \<and> m_board m = b \<and> m_isActive m"
  by (auto simp: findOne_member_def find_Some_iff)

subsection \<open>Boards and members\<close>

lemma boardMember_create_Some:
  "boardMember_create b u role invBy perms d = Some d' \<Longrightarrow>
   role \<in> set role_enum \<and>
   d' = d\<lparr>members := members d @
          [boardMember_pre_save
             \<lparr>m_id = next_id d, m_board = b, m_user = u, m_role = role,
              m_invitedBy = invBy, m_isActive = True,
              m_permissions = (case perms of None \<Rightarrow> default_permissions | Some p \<Rightarrow> p)\<rparr>],
         next_id := Suc (next_id d)\<rparr>"
  by (simp add: boardMember_create_def split: if_splits)

lemma boardMember_pre_save_fields:
  "m_id (boardMember_pre_save x) = m_id x \<and> m_board (boardMember_pre_save x) = m_board x
   \<and> m_user (boardMember_pre_save x) = m_user x \<and> m_role (boardMember_pre_save x) = m_role x
   \<and> m_invitedBy (boardMember_pre_save x) = m_invitedBy x
   \<and> m_isActive (boardMember_pre_save x) = m_isActive x"
  by (simp add: boardMember_pre_save_def)

lemma post_board_created:
  assumes "status (fst (post_board d uid isPublic)) = 201"
  shows "snd (post_board d uid isPublic) =
     d\<lparr>boards := boards d @ [\<lparr>b_id = next_id d, b_owner = uid,
                   b_isPublic = (case isPublic of Some p \<Rightarrow> p | None \<Rightarrow> False)\<rparr>],
       members := members d @
         [\<lparr>m_id = Suc (next_id d), m_board = next_id d, m_user = uid, m_role = ''owner'',
           m_invitedBy = None, m_isActive = True, m_permissions = all_permissions\<rparr>],
       next_id := Suc (Suc (next_id d))\<rparr>"
proof -
  define d1 where "d1 = d\<lparr>boards := boards d @ [\<lparr>b_id = next_id d, b_owner = uid,
                   b_isPublic = (case isPublic of Some p \<Rightarrow> p | None \<Rightarrow> False)\<rparr>],
                 next_id := Suc (next_id d)\<rparr>"
  have unf: "post_board d uid isPublic =
     (case boardMember_create (next_id d) uid ''owner'' None (Some all_permissions) d1 of
        None \<Rightarrow> (fail 500 ''Failed to create board'', d1)
      | Some d2 \<Rightarrow> (ok 201 ''Board created successfully'', d2))"
    unfolding post_board_def Let_def d1_def by simp
  show ?thesis
  proof (cases "boardMember_create (next_id d) uid ''owner'' None (Some all_permissions) d1")
    case None
    with assms unf show ?thesis by (simp add: fail_def)
  next
    case (Some d2)
    from boardMember_create_Some[OF Some] have "d2 = d1\<lparr>members := members d1 @
          [boardMember_pre_save
             \<lparr>m_id = next_id d1, m_board = next_id d, m_user = uid, m_role = ''owner'',
              m_invitedBy = None, m_isActive = True,
              m_permissions = all_permissions\<rparr>],
         next_id := Suc (next_id d1)\<rparr>" by simp
    with Some unf show ?thesis
      by (simp add: d1_def boardMember_pre_save_def all_permissions_def)
  qed
qed

lemma post_member_created:
  assumes "status (fst (post_member d uid b email role)) = 201"
  shows "role_valid role \<and>
    (\<exists>x. members (snd (post_member d uid b email role)) = members d @ [x]
        \<and> m_role x = role \<and> m_board x = b
        \<and> m_permissions x = m_permissions (boardMember_pre_save x))"
proof (cases "role_valid role")
  case False
  with assms show ?thesis by (simp add: post_member_def validation_error_def fail_def)
next
  case valid: True
  show ?thesis
  proof (cases "checkBoardAccess d uid b")
    case (Inl r)
    with assms valid show ?thesis
      by (auto simp: post_member_def checkBoardAccess_def fail_def
          split: option.splits if_splits)
  next
    case (Inr ctx)
    define G where "G \<longleftrightarrow> breq_userRole ctx \<noteq> ''owner'' \<and> breq_userRole ctx \<noteq> ''admin'' \<and>
                (case breq_membership ctx of
                   None \<Rightarrow> True
                 | Some m \<Rightarrow> \<not> canInviteMembers (m_permissions m))"
    have unf: "post_member d uid b email role =
      (if G then (fail 403 ''You do not have permission to invite members'', d)
       else
         (case find (\<lambda>u. u_email u = email) (users d) of
            None \<Rightarrow> (fail 404 ''User not found'', d)
          | Some user \<Rightarrow>
              (case find (\<lambda>m. m_board m = b \<and> m_user m = u_id user) (members d) of
                 Some existingMember \<Rightarrow>
                   (fail 400 ''User is already a member of this board'', d)
               | None \<Rightarrow>
                   (case boardMember_create b (u_id user) role (Some uid) None d of
                      None \<Rightarrow> (fail 500 ''Failed to invite member'', d)
                    | Some d1 \<Rightarrow> (ok 201 ''Member invited successfully'', d1)))))"
      using valid Inr by (simp add: post_member_def G_def)
    show ?thesis
    proof (cases G)
      case True
      with assms unf show ?thesis by (simp add: fail_def)
    next
      case nG: False
      show ?thesis
      proof (cases "find (\<lambda>u. u_email u = email) (users d)")
        case None
        with assms unf nG show ?thesis by (simp add: fail_def)
      next
        case user: (Some user)
        show ?thesis
        proof (cases "find (\<lambda>m. m_board m = b \<and> m_user m = u_id user) (members d)")
          case (Some ex)
          with assms unf nG user show ?thesis by (simp add: fail_def)
        next
          case none: None
          show ?thesis
          proof (cases "boardMember_create b (u_id user) role (Some uid) None d")
            case None
            with assms unf nG user none show ?thesis by (simp add: fail_def)
          next
            case (Some d1)
            from unf nG user none Some have s: "snd (post_member d uid b email role) = d1"
              by simp
            from boardMember_create_Some[OF Some]
            have "members d1 = members d @
              [boardMember_pre_save
                 \<lparr>m_id = next_id d, m_board = b, m_user = u_id user, m_role = role,
                  m_invitedBy = Some uid, m_isActive = True,
                  m_permissions = default_permissions\<rparr>]" by simp
            with s valid show ?thesis
              by (simp add: boardMember_pre_save_fields) (simp add: boardMember_pre_save_def)
          qed
        qed
      qed
    qed
  qed
qed

lemma put_member_ok:
  assumes "status (fst (put_member d uid b mid role)) = 200"
  shows "role_valid role"
proof (rule ccontr)
  assume "\<not> role_valid role"
  then have "put_member d uid b mid role = (validation_error, d)"
    by (simp add: put_member_def)
  with assms show False by (simp add: validation_error_def fail_def)
qed

lemma post_board_succeeds:
  assumes "\<forall>m \<in> set (members d). m_board m \<noteq> next_id d"
  shows "status (fst (post_board d uid isPublic)) = 201"
proof -
  define d1 where "d1 = d\<lparr>boards := boards d @ [\<lparr>b_id = next_id d, b_owner = uid,
                   b_isPublic = (case isPublic of Some p \<Rightarrow> p | None \<Rightarrow> False)\<rparr>],
                 next_id := Suc (next_id d)\<rparr>"
  have unf: "post_board d uid isPublic =
     (case boardMember_create (next_id d) uid ''owner'' None (Some all_permissions) d1 of
        None \<Rightarrow> (fail 500 ''Failed to create board'', d1)
      | Some d2 \<Rightarrow> (ok 201 ''Board created successfully'', d2))"
    unfolding post_board_def Let_def d1_def by simp
  have "members d1 = members d" by (simp add: d1_def)
  with assms have "boardMember_create (next_id d) uid ''owner'' None (Some all_permissions) d1
      \<noteq> None"
    by (auto simp: boardMember_create_def role_enum_def)
  then obtain d2 where
    "boardMember_create (next_id d) uid ''owner'' None (Some all_permissions) d1 = Some d2"
    by blast
  with unf show ?thesis by (simp add: ok_def)
qed

section \<open>Results\<close>

text \<open>
  C1. The specification denies every mutation to a user who is neither owner nor member
  of a public board. The list routes do not: \<open>checkListAccess\<close> lets such a user
  through as a viewer without a membership, and the guards of the update, delete and
  reorder handlers refuse only when a membership exists and lacks the permission. Eve,
  who is a member of no board, renames, deletes and moves the list 13 of Ann's public
  board 6. The sibling paths do refuse her: creating a list on the board, and moving a
  card of it.
\<close>

theorem C1_public_board_lists:
  "findById_board demo_db 6 = Some \<lparr>b_id = 6, b_owner = 1, b_isPublic = True\<rparr>
   \<and> find (\<lambda>m. m_user m = 5) (members demo_db) = None
   \<and> fst (put_list demo_db 5 13 \<lparr>upd_title = Some ''Defaced'', upd_description = None,
        upd_color = None\<rparr>) = ok 200 ''List updated successfully''
   \<and> map l_title (lists (snd (put_list demo_db 5 13 \<lparr>upd_title = Some ''Defaced'',
        upd_description = None, upd_color = None\<rparr>)))
       = [''To do'', ''Doing'', ''Defaced'', ''Votes'']
   \<and> fst (delete_list demo_db 5 13) = ok 200 ''List deleted successfully''
   \<and> map l_id (lists (snd (delete_list demo_db 5 13))) = [10, 11, 14]
   \<and> fst (put_list_reorder demo_db 5 13 1) = ok 200 ''List reordered successfully''
   \<and> map (\<lambda>l. (l_id l, l_order l)) (lists (snd (put_list_reorder demo_db 5 13 1)))
       = [(10, 0), (11, 1), (13, 1), (14, 0)]
   \<and> post_list demo_db 5 ''Mine'' 6 None None
       = (fail 403 ''You do not have permission to create lists on this board'', demo_db)
   \<and> patch_card_move demo_db 5 23 14 None
       = (fail 403 ''You do not have permission to move this card'', demo_db)"
proof -
  have acc: "checkListAccess demo_db 5 13 =
      Inr \<lparr>req_list = \<lparr>l_id = 13, l_title = ''Ideas'', l_description = None, l_color = None,
                 l_board = 6, l_order = 0, l_createdBy = 1\<rparr>,
            req_board = \<lparr>b_id = 6, b_owner = 1, b_isPublic = True\<rparr>,
            req_userRole = ''viewer'', req_membership = None\<rparr>"
    by (simp add: checkListAccess_def findById_list_def findById_board_def demo_db_def)
  have a: "findById_board demo_db 6 = Some \<lparr>b_id = 6, b_owner = 1, b_isPublic = True\<rparr>"
    by (simp add: findById_board_def demo_db_def)
  have b: "find (\<lambda>m. m_user m = 5) (members demo_db) = None" by (simp add: demo_db_def)
  have c: "put_list demo_db 5 13 \<lparr>upd_title = Some ''Defaced'', upd_description = None,
        upd_color = None\<rparr> = (ok 200 ''List updated successfully'',
          demo_db\<lparr>lists := update_first (\<lambda>l. l_id l = 13)
             (apply_update \<lparr>upd_title = Some ''Defaced'', upd_description = None,
                upd_color = None\<rparr>) (lists demo_db)\<rparr>)"
    by (simp add: put_list_def acc edit_denied_def)
  have c1: "map l_title (lists (snd (put_list demo_db 5 13 \<lparr>upd_title = Some ''Defaced'',
        upd_description = None, upd_color = None\<rparr>)))
       = [''To do'', ''Doing'', ''Defaced'', ''Votes'']"
    unfolding c by (simp add: demo_db_def apply_update_def)
  have e: "delete_list demo_db 5 13 = (ok 200 ''List deleted successfully'',
          demo_db\<lparr>lists := remove_first (\<lambda>l. l_id l = 13) (lists demo_db)\<rparr>)"
    by (simp add: delete_list_def acc delete_denied_def)
  have e1: "map l_id (lists (snd (delete_list demo_db 5 13))) = [10, 11, 14]"
    unfolding e by (simp add: demo_db_def)
  have f: "put_list_reorder demo_db 5 13 1 = reorder_step demo_db 13 1"
    by (simp add: put_list_reorder_def acc edit_denied_def)
  have f0: "fst (put_list_reorder demo_db 5 13 1) = ok 200 ''List reordered successfully''"
    unfolding f by (simp add: reorder_step_def findById_list_def demo_db_def Let_def)
  have f1: "map (\<lambda>l. (l_id l, l_order l)) (lists (snd (put_list_reorder demo_db 5 13 1)))
       = [(10, 0), (11, 1), (13, 1), (14, 0)]"
    unfolding f
    by (simp add: reorder_step_def findById_list_def list_pre_save_def demo_db_def Let_def)
  have g: "post_list demo_db 5 ''Mine'' 6 None None
       = (fail 403 ''You do not have permission to create lists on this board'', demo_db)"
    by (simp add: post_list_def a) (simp add: findOne_member_def demo_db_def)
  have h: "patch_card_move demo_db 5 23 14 None
       = (fail 403 ''You do not have permission to move this card'', demo_db)"
    by (simp add: patch_card_move_def checkCardAccess_def findById_card_def findById_board_def
        move_denied_def demo_db_def)
  have c0: "fst (put_list demo_db 5 13 \<lparr>upd_title = Some ''Defaced'', upd_description = None,
        upd_color = None\<rparr>) = ok 200 ''List updated successfully''"
    unfolding c by simp
  have e0: "fst (delete_list demo_db 5 13) = ok 200 ''List deleted successfully''"
    unfolding e by simp
  from a b c0 c1 e0 e1 f0 f1 g h show ?thesis by (simp only: simp_thms)
qed

text \<open>
  C2. The specification wants the stored permissions to be those of the current role
  after every role update. The update route writes the role with \<open>findOneAndUpdate\<close>,
  which does not run the save hook: Ann creates a board, invites Bob as a viewer and
  makes him an admin; his stored role is then \<open>admin\<close> and his stored permissions are
  still the viewer's, without \<open>canDeleteLists\<close>, which the hook gives an admin.
\<close>

theorem C2_role_update_keeps_permissions:
  "post_board users_db 1 None =
     (ok 201 ''Board created successfully'',
      users_db\<lparr>boards := [\<lparr>b_id = 6, b_owner = 1, b_isPublic = False\<rparr>],
        members := [\<lparr>m_id = 7, m_board = 6, m_user = 1, m_role = ''owner'', m_invitedBy = None,
                     m_isActive = True, m_permissions = all_permissions\<rparr>],
        next_id := 8\<rparr>)
   \<and> post_member (snd (post_board users_db 1 None)) 1 6 ''bob@example.com'' ''viewer'' =
     (ok 201 ''Member invited successfully'',
      users_db\<lparr>boards := [\<lparr>b_id = 6, b_owner = 1, b_isPublic = False\<rparr>],
        members := [\<lparr>m_id = 7, m_board = 6, m_user = 1, m_role = ''owner'', m_invitedBy = None,
                     m_isActive = True, m_permissions = all_permissions\<rparr>,
                    \<lparr>m_id = 8, m_board = 6, m_user = 3, m_role = ''viewer'',
                     m_invitedBy = Some 1, m_isActive = True, m_permissions = no_permissions\<rparr>],
        next_id := 9\<rparr>)
   \<and> put_member
        (snd (post_member (snd (post_board users_db 1 None)) 1 6 ''bob@example.com'' ''viewer''))
        1 6 8 ''admin'' =
     (ok 200 ''Member role updated successfully'',
      users_db\<lparr>boards := [\<lparr>b_id = 6, b_owner = 1, b_isPublic = False\<rparr>],
        members := [\<lparr>m_id = 7, m_board = 6, m_user = 1, m_role = ''owner'', m_invitedBy = None,
                     m_isActive = True, m_permissions = all_permissions\<rparr>,
                    \<lparr>m_id = 8, m_board = 6, m_user = 3, m_role = ''admin'',
                     m_invitedBy = Some 1, m_isActive = True, m_permissions = no_permissions\<rparr>],
        next_id := 9\<rparr>)
   \<and> \<not> canDeleteLists no_permissions
   \<and> canDeleteLists (m_permissions (boardMember_pre_save
        \<lparr>m_id = 8, m_board = 6, m_user = 3, m_role = ''admin'',
         m_invitedBy = Some 1, m_isActive = True, m_permissions = no_permissions\<rparr>))"
proof -
  have s1: "post_board users_db 1 None =
     (ok 201 ''Board created successfully'',
      users_db\<lparr>boards := [\<lparr>b_id = 6, b_owner = 1, b_isPublic = False\<rparr>],
        members := [\<lparr>m_id = 7, m_board = 6, m_user = 1, m_role = ''owner'', m_invitedBy = None,
                     m_isActive = True, m_permissions = all_permissions\<rparr>],
        next_id := 8\<rparr>)"
    by (simp add: post_board_def boardMember_create_def boardMember_pre_save_def role_enum_def
        users_db_def all_permissions_def Let_def)
  have s2: "post_member (users_db\<lparr>boards := [\<lparr>b_id = 6, b_owner = 1, b_isPublic = False\<rparr>],
        members := [\<lparr>m_id = 7, m_board = 6, m_user = 1, m_role = ''owner'', m_invitedBy = None,
                     m_isActive = True, m_permissions = all_permissions\<rparr>],
        next_id := 8\<rparr>) 1 6 ''bob@example.com'' ''viewer'' =
     (ok 201 ''Member invited successfully'',
      users_db\<lparr>boards := [\<lparr>b_id = 6, b_owner = 1, b_isPublic = False\<rparr>],
        members := [\<lparr>m_id = 7, m_board = 6, m_user = 1, m_role = ''owner'', m_invitedBy = None,
                     m_isActive = True, m_permissions = all_permissions\<rparr>,
                    \<lparr>m_id = 8, m_board = 6, m_user = 3, m_role = ''viewer'',
                     m_invitedBy = Some 1, m_isActive = True, m_permissions = no_permissions\<rparr>],
        next_id := 9\<rparr>)"
    by (simp add: post_member_def role_valid_def checkBoardAccess_def findById_board_def
        boardMember_create_def boardMember_pre_save_def role_enum_def users_db_def
        no_permissions_def)
  have s3: "put_member (users_db\<lparr>boards := [\<lparr>b_id = 6, b_owner = 1, b_isPublic = False\<rparr>],
        members := [\<lparr>m_id = 7, m_board = 6, m_user = 1, m_role = ''owner'', m_invitedBy = None,
                     m_isActive = True, m_permissions = all_permissions\<rparr>,
                    \<lparr>m_id = 8, m_board = 6, m_user = 3, m_role = ''viewer'',
                     m_invitedBy = Some 1, m_isActive = True, m_permissions = no_permissions\<rparr>],
        next_id := 9\<rparr>) 1 6 8 ''admin'' =
     (ok 200 ''Member role updated successfully'',
      users_db\<lparr>boards := [\<lparr>b_id = 6, b_owner = 1, b_isPublic = False\<rparr>],
        members := [\<lparr>m_id = 7, m_board = 6, m_user = 1, m_role = ''owner'', m_invitedBy = None,
                     m_isActive = True, m_permissions = all_permissions\<rparr>,
                    \<lparr>m_id = 8, m_board = 6, m_user = 3, m_role = ''admin'',
                     m_invitedBy = Some 1, m_isActive = True, m_permissions = no_permissions\<rparr>],
        next_id := 9\<rparr>)"
    by (simp add: put_member_def role_valid_def checkBoardAccess_def findById_board_def
        users_db_def)
  have s4: "\<not> canDeleteLists no_permissions" by (simp add: no_permissions_def)
  have s5: "canDeleteLists (m_permissions (boardMember_pre_save
        \<lparr>m_id = 8, m_board = 6, m_user = 3, m_role = ''admin'',
         m_invitedBy = Some 1, m_isActive = True, m_permissions = no_permissions\<rparr>))"
    by (simp add: boardMember_pre_save_def)
  show ?thesis unfolding s1 snd_conv s2 s3 using s4 s5 by (simp only: simp_thms)
qed

text \<open>
  C3. The save hook gives each of the roles admin, editor and viewer the capability set of
  the table in section 4.1 of the specification, all twelve bits: admin has every
  capability but deleting the board; editor creates and edits lists and cards, moves
  cards and comments, and has no board-level and no delete capability; viewer has none.
\<close>

theorem C3_role_permission_table:
  "m_permissions (boardMember_pre_save (m\<lparr>m_role := ''admin''\<rparr>)) =
     \<lparr>canEditBoard = True, canDeleteBoard = False, canInviteMembers = True,
      canRemoveMembers = True, canCreateLists = True, canEditLists = True,
      canDeleteLists = True, canCreateCards = True, canEditCards = True,
      canDeleteCards = True, canMoveCards = True, canComment = True\<rparr>
   \<and> m_permissions (boardMember_pre_save (m\<lparr>m_role := ''editor''\<rparr>)) =
     \<lparr>canEditBoard = False, canDeleteBoard = False, canInviteMembers = False,
      canRemoveMembers = False, canCreateLists = True, canEditLists = True,
      canDeleteLists = False, canCreateCards = True, canEditCards = True,
      canDeleteCards = False, canMoveCards = True, canComment = True\<rparr>
   \<and> m_permissions (boardMember_pre_save (m\<lparr>m_role := ''viewer''\<rparr>)) =
     \<lparr>canEditBoard = False, canDeleteBoard = False, canInviteMembers = False,
      canRemoveMembers = False, canCreateLists = False, canEditLists = False,
      canDeleteLists = False, canCreateCards = False, canEditCards = False,
      canDeleteCards = False, canMoveCards = False, canComment = False\<rparr>"
  by (simp add: boardMember_pre_save_def)

text \<open>
  C4, as stated, fails: creating a board stores a member document for its owner, with
  the role \<open>owner\<close>.
\<close>

theorem C4_owner_membership_counterexample:
  "boards (snd (post_board users_db 1 None)) = [\<lparr>b_id = 6, b_owner = 1, b_isPublic = False\<rparr>]
   \<and> members (snd (post_board users_db 1 None)) =
       [\<lparr>m_id = 7, m_board = 6, m_user = 1, m_role = ''owner'', m_invitedBy = None,
         m_isActive = True, m_permissions = all_permissions\<rparr>]"
  by (simp add: post_board_def boardMember_create_def boardMember_pre_save_def role_enum_def
      users_db_def all_permissions_def Let_def)

text \<open>
  C4, amended. Creating a board succeeds whenever no stored member refers to the new
  board's id, and then stores the board and one member document for its owner, with the
  role \<open>owner\<close> and all twelve permissions. Every member that an invite adds has one of
  the roles admin, editor and viewer, and a role update that is accepted writes one of
  these three.
\<close>

theorem C4_owner_membership:
  "((\<forall>m \<in> set (members d). m_board m \<noteq> next_id d) \<longrightarrow>
       status (fst (post_board d uid isPublic)) = 201)
   \<and> (status (fst (post_board d uid isPublic)) = 201 \<longrightarrow>
       boards (snd (post_board d uid isPublic)) =
         boards d @ [\<lparr>b_id = next_id d, b_owner = uid,
                      b_isPublic = (case isPublic of Some p \<Rightarrow> p | None \<Rightarrow> False)\<rparr>]
     \<and> members (snd (post_board d uid isPublic)) =
         members d @ [\<lparr>m_id = Suc (next_id d), m_board = next_id d, m_user = uid,
                       m_role = ''owner'', m_invitedBy = None, m_isActive = True,
                       m_permissions = all_permissions\<rparr>])
   \<and> (status (fst (post_member d uid' b email role)) = 201 \<longrightarrow>
       role \<in> {''admin'', ''editor'', ''viewer''}
     \<and> (\<exists>x. members (snd (post_member d uid' b email role)) = members d @ [x]
            \<and> m_role x = role \<and> m_board x = b))
   \<and> (status (fst (put_member d uid' b mid role')) = 200 \<longrightarrow>
       role' \<in> {''admin'', ''editor'', ''viewer''})"
proof (intro conjI impI)
  assume "\<forall>m \<in> set (members d). m_board m \<noteq> next_id d"
  then show "status (fst (post_board d uid isPublic)) = 201" by (rule post_board_succeeds)
next
  assume a: "status (fst (post_board d uid isPublic)) = 201"
  show "boards (snd (post_board d uid isPublic)) =
         boards d @ [\<lparr>b_id = next_id d, b_owner = uid,
                      b_isPublic = (case isPublic of Some p \<Rightarrow> p | None \<Rightarrow> False)\<rparr>]"
    unfolding post_board_created[OF a] by simp
  show "members (snd (post_board d uid isPublic)) =
         members d @ [\<lparr>m_id = Suc (next_id d), m_board = next_id d, m_user = uid,
                       m_role = ''owner'', m_invitedBy = None, m_isActive = True,
                       m_permissions = all_permissions\<rparr>]"
    unfolding post_board_created[OF a] by simp
next
  assume a: "status (fst (post_member d uid' b email role)) = 201"
  from post_member_created[OF a] show "role \<in> {''admin'', ''editor'', ''viewer''}"
    by (simp add: role_valid_def)
  from post_member_created[OF a]
  show "\<exists>x. members (snd (post_member d uid' b email role)) = members d @ [x]
            \<and> m_role x = role \<and> m_board x = b" by blast
next
  assume "status (fst (put_member d uid' b mid role')) = 200"
  then have "role_valid role'" by (rule put_member_ok)
  then show "role' \<in> {''admin'', ''editor'', ''viewer''}" by (simp add: role_valid_def)
qed

text \<open>
  Ann creates a public board; on her board 2 she invites Eve as an editor and makes Bob
  an editor; the role \<open>owner\<close> is refused by the validator.
\<close>

theorem C4_owner_membership_witness:
  "status (fst (post_board users_db 1 (Some True))) = 201
   \<and> boards (snd (post_board users_db 1 (Some True))) =
       [\<lparr>b_id = 6, b_owner = 1, b_isPublic = True\<rparr>]
   \<and> members (snd (post_board users_db 1 (Some True))) =
       [\<lparr>m_id = 7, m_board = 6, m_user = 1, m_role = ''owner'', m_invitedBy = None,
         m_isActive = True, m_permissions = all_permissions\<rparr>]
   \<and> status (fst (post_member demo_db 1 2 ''eve@example.com'' ''editor'')) = 201
   \<and> map m_role (members (snd (post_member demo_db 1 2 ''eve@example.com'' ''editor'')))
       = [''owner'', ''owner'', ''viewer'', ''owner'', ''editor'']
   \<and> status (fst (put_member demo_db 1 2 8 ''editor'')) = 200
   \<and> status (fst (put_member demo_db 1 2 8 ''owner'')) = 400"
proof -
  note T1 = C4_owner_membership[where d = users_db and uid = 1 and isPublic = "Some True"]
  note T2 = C4_owner_membership[where d = demo_db and uid' = 1 and b = 2
      and email = "''eve@example.com''" and role = "''editor''" and mid = 8
      and role' = "''editor''"]
  have h1: "\<forall>m \<in> set (members users_db). m_board m \<noteq> next_id users_db"
    by (simp add: users_db_def)
  from T1 h1 have s1: "status (fst (post_board users_db 1 (Some True))) = 201" by blast
  from T1 s1 have b1: "boards (snd (post_board users_db 1 (Some True))) =
       [\<lparr>b_id = 6, b_owner = 1, b_isPublic = True\<rparr>]"
    by (simp add: users_db_def)
  from T1 s1 have m1: "members (snd (post_board users_db 1 (Some True))) =
       [\<lparr>m_id = 7, m_board = 6, m_user = 1, m_role = ''owner'', m_invitedBy = None,
         m_isActive = True, m_permissions = all_permissions\<rparr>]"
    by (simp add: users_db_def)
  have s2: "status (fst (post_member demo_db 1 2 ''eve@example.com'' ''editor'')) = 201"
    by (simp add: post_member_def role_valid_def checkBoardAccess_def findById_board_def
        boardMember_create_def role_enum_def demo_db_def ok_def)
  from T2 s2 obtain x where
    "members (snd (post_member demo_db 1 2 ''eve@example.com'' ''editor'')) = members demo_db @ [x]"
    "m_role x = ''editor''" by blast
  then have m2: "map m_role (members (snd (post_member demo_db 1 2 ''eve@example.com'' ''editor'')))
       = [''owner'', ''owner'', ''viewer'', ''owner'', ''editor'']"
    by (simp add: demo_db_def)
  have s3: "status (fst (put_member demo_db 1 2 8 ''editor'')) = 200"
    by (simp add: put_member_def role_valid_def checkBoardAccess_def findById_board_def
        demo_db_def ok_def)
  have s4: "status (fst (put_member demo_db 1 2 8 ''owner'')) = 400"
    by (simp add: put_member_def role_valid_def validation_error_def fail_def)
  from s1 b1 m1 s2 m2 s3 s4 show ?thesis by (simp only: simp_thms)
qed










text \<open>
  C9, as stated, fails: on Ann's private board 2 the update of list 10 is refused to Eve,
  who has no relation to the board, with "Access denied", and to Bob, a viewer, with "You
  do not have permission to edit this list".
\<close>

theorem C9_denial_responses_counterexample:
  "put_list demo_db 5 10 \<lparr>upd_title = Some ''Mine'', upd_description = None, upd_color = None\<rparr>
     = (fail 403 ''Access denied'', demo_db)
   \<and> put_list demo_db 3 10 \<lparr>upd_title = Some ''Mine'', upd_description = None, upd_color = None\<rparr>
     = (fail 403 ''You do not have permission to edit this list'', demo_db)
   \<and> findOne_member demo_db 2 5 = None
   \<and> map_option m_role (findOne_member demo_db 2 3) = Some ''viewer''
   \<and> fail 403 ''Access denied'' \<noteq> fail 403 ''You do not have permission to edit this list''"
  by (simp add: put_list_def checkListAccess_def findById_list_def findById_board_def
      findOne_member_def edit_denied_def demo_db_def no_permissions_def fail_def)

text \<open>
  C9, amended. Of two requests to update a list of a private board, one by a user who is
  not the owner and has no active membership, one by a member whose role is not
  \<open>owner\<close> and who lacks \<open>canEditLists\<close>: both are answered with status 403 and
  \<open>success = false\<close> and change nothing, and the messages differ, "Access denied"
  against "You do not have permission to edit this list".
\<close>

theorem C9_denial_responses:
  assumes "findById_list d1 l1 = Some li1"
    and "findById_board d1 (l_board li1) = Some bo1"
    and "b_owner bo1 \<noteq> u1" and "\<not> b_isPublic bo1"
    and "findOne_member d1 (b_id bo1) u1 = None"
    and "findById_list d2 l2 = Some li2"
    and "findById_board d2 (l_board li2) = Some bo2"
    and "b_owner bo2 \<noteq> u2" and "\<not> b_isPublic bo2"
    and "findOne_member d2 (b_id bo2) u2 = Some m"
    and "m_role m \<noteq> ''owner''"
    and "\<not> canEditLists (m_permissions m)"
  shows "put_list d1 u1 l1 upd1 = (fail 403 ''Access denied'', d1)
     \<and> put_list d2 u2 l2 upd2 = (fail 403 ''You do not have permission to edit this list'', d2)
     \<and> status (fst (put_list d1 u1 l1 upd1)) = 403
     \<and> status (fst (put_list d2 u2 l2 upd2)) = 403
     \<and> \<not> success (fst (put_list d1 u1 l1 upd1))
     \<and> \<not> success (fst (put_list d2 u2 l2 upd2))
     \<and> message (fst (put_list d1 u1 l1 upd1)) \<noteq> message (fst (put_list d2 u2 l2 upd2))"
proof -
  have a1: "checkListAccess d1 u1 l1 = Inl (fail 403 ''Access denied'')"
    using assms(1-5) by (rule checkListAccess_no_relation)
  have a2: "checkListAccess d2 u2 l2 =
     Inr \<lparr>req_list = li2, req_board = bo2, req_userRole = m_role m, req_membership = Some m\<rparr>"
    using assms(6-10) by (rule checkListAccess_member)
  have r1: "put_list d1 u1 l1 upd1 = (fail 403 ''Access denied'', d1)"
    by (simp add: put_list_def a1)
  have "edit_denied \<lparr>req_list = li2, req_board = bo2, req_userRole = m_role m,
       req_membership = Some m\<rparr>"
    using assms(11,12) by (simp add: edit_denied_def)
  then have r2: "put_list d2 u2 l2 upd2
        = (fail 403 ''You do not have permission to edit this list'', d2)"
    by (simp add: put_list_def a2)
  show ?thesis unfolding r1 r2 by (simp add: fail_def)
qed

text \<open>Eve and Bob on list 10 of board 2.\<close>

theorem C9_denial_responses_witness:
  "findOne_member demo_db 2 5 = None
   \<and> map_option m_role (findOne_member demo_db 2 3) = Some ''viewer''
   \<and> status (fst (put_list demo_db 5 10 \<lparr>upd_title = Some ''Mine'', upd_description = None,
         upd_color = None\<rparr>)) = 403
   \<and> status (fst (put_list demo_db 3 10 \<lparr>upd_title = Some ''Mine'', upd_description = None,
         upd_color = None\<rparr>)) = 403
   \<and> message (fst (put_list demo_db 5 10 \<lparr>upd_title = Some ''Mine'', upd_description = None,
         upd_color = None\<rparr>)) = ''Access denied''
   \<and> message (fst (put_list demo_db 3 10 \<lparr>upd_title = Some ''Mine'', upd_description = None,
         upd_color = None\<rparr>)) = ''You do not have permission to edit this list''"
proof -
  have li: "findById_list demo_db 10 = Some \<lparr>l_id = 10, l_title = ''To do'',
      l_description = None, l_color = None, l_board = 2, l_order = 0, l_createdBy = 1\<rparr>"
    by (simp add: findById_list_def demo_db_def)
  have bo: "findById_board demo_db 2 = Some \<lparr>b_id = 2, b_owner = 1, b_isPublic = False\<rparr>"
    by (simp add: findById_board_def demo_db_def)
  have eve: "findOne_member demo_db 2 5 = None"
    by (simp add: findOne_member_def demo_db_def)
  have bob: "findOne_member demo_db 2 3 = Some \<lparr>m_id = 8, m_board = 2, m_user = 3,
      m_role = ''viewer'', m_invitedBy = Some 1, m_isActive = True,
      m_permissions = no_permissions\<rparr>"
    by (simp add: findOne_member_def demo_db_def)
  have T: "put_list demo_db 5 10 \<lparr>upd_title = Some ''Mine'', upd_description = None,
         upd_color = None\<rparr> = (fail 403 ''Access denied'', demo_db)
     \<and> put_list demo_db 3 10 \<lparr>upd_title = Some ''Mine'', upd_description = None,
         upd_color = None\<rparr>
       = (fail 403 ''You do not have permission to edit this list'', demo_db)"
    using C9_denial_responses[where ?d1.0 = demo_db and ?l1.0 = 10 and ?u1.0 = 5
      and ?d2.0 = demo_db and ?l2.0 = 10 and ?u2.0 = 3
      and ?li1.0 = "\<lparr>l_id = 10, l_title = ''To do'',
        l_description = None, l_color = None, l_board = 2, l_order = 0, l_createdBy = 1\<rparr>"
      and ?li2.0 = "\<lparr>l_id = 10, l_title = ''To do'',
        l_description = None, l_color = None, l_board = 2, l_order = 0, l_createdBy = 1\<rparr>"
      and ?bo1.0 = "\<lparr>b_id = 2, b_owner = 1, b_isPublic = False\<rparr>"
      and ?bo2.0 = "\<lparr>b_id = 2, b_owner = 1, b_isPublic = False\<rparr>"
      and m = "\<lparr>m_id = 8, m_board = 2, m_user = 3,
        m_role = ''viewer'', m_invitedBy = Some 1, m_isActive = True,
        m_permissions = no_permissions\<rparr>"
      and ?upd1.0 = "\<lparr>upd_title = Some ''Mine'', upd_description = None, upd_color = None\<rparr>"
      and ?upd2.0 = "\<lparr>upd_title = Some ''Mine'', upd_description = None, upd_color = None\<rparr>"]
      li bo eve bob
    by (simp add: no_permissions_def)
  from T eve bob show ?thesis by (simp add: fail_def)
qed

text \<open>
  C10. A list move with a new order below 1 is answered by input validation, before the
  list is looked up, and changes nothing, although the first list of a board is created
  with the order 0: every move that the route accepts has a target of at least 1.
\<close>

theorem C10_reorder_validator:
  "(newOrder < 1 \<longrightarrow> put_list_reorder d uid listId newOrder = (validation_error, d))
   \<and> (filter (\<lambda>x. l_board x = b) (lists d) = [] \<longrightarrow>
        map l_order (filter (\<lambda>x. l_board x = b) (lists (list_create t b de co ord u d))) = [0])
   \<and> (success (fst (put_list_reorder d uid' listId' n)) \<longrightarrow> 1 \<le> n)"
proof (intro conjI impI)
  assume "newOrder < 1"
  then show "put_list_reorder d uid listId newOrder = (validation_error, d)"
    by (simp add: put_list_reorder_def)
next
  assume "filter (\<lambda>x. l_board x = b) (lists d) = []"
  then show "map l_order (filter (\<lambda>x. l_board x = b) (lists (list_create t b de co ord u d))) = [0]"
    by (simp add: list_create_lists)
next
  assume s: "success (fst (put_list_reorder d uid' listId' n))"
  show "1 \<le> n"
  proof (rule ccontr)
    assume "\<not> 1 \<le> n"
    then have "put_list_reorder d uid' listId' n = (validation_error, d)"
      by (simp add: put_list_reorder_def)
    with s show False by (simp add: validation_error_def fail_def)
  qed
qed

text \<open>
  Ann's move of her list 10 to the order 0 is refused, the first list of her empty board 9
  has the order 0, and her move of list 10 to the order 1 is carried out.
\<close>

theorem C10_reorder_validator_witness:
  "put_list_reorder demo_db 1 10 0 = (fail 400 ''Validation error'', demo_db)
   \<and> map l_order (filter (\<lambda>x. l_board x = 9)
        (lists (list_create ''First'' 9 None None 1 1 demo_db))) = [0]
   \<and> success (fst (put_list_reorder demo_db 1 10 1))
   \<and> map l_order (lists (snd (put_list_reorder demo_db 1 10 1))) = [1, 0, 0, 1]"
proof -
  note T = C10_reorder_validator[where d = demo_db and newOrder = 0 and uid = 1
      and listId = 10 and b = 9 and t = "''First''" and de = None and co = None and ord = 1
      and u = 1 and uid' = 1 and listId' = 10 and n = 1]
  have e: "filter (\<lambda>x. l_board x = 9) (lists demo_db) = []" by (simp add: demo_db_def)
  have r: "put_list_reorder demo_db 1 10 1 =
      (ok 200 ''List reordered successfully'',
       demo_db\<lparr>lists :=
         [\<lparr>l_id = 10, l_title = ''To do'', l_description = None, l_color = None,
            l_board = 2, l_order = 1, l_createdBy = 1\<rparr>,
          \<lparr>l_id = 11, l_title = ''Doing'', l_description = None, l_color = None,
            l_board = 2, l_order = 0, l_createdBy = 1\<rparr>,
          \<lparr>l_id = 13, l_title = ''Ideas'', l_description = None, l_color = None,
            l_board = 6, l_order = 0, l_createdBy = 1\<rparr>,
          \<lparr>l_id = 14, l_title = ''Votes'', l_description = None, l_color = None,
            l_board = 6, l_order = 1, l_createdBy = 1\<rparr>]\<rparr>)"
    by (simp add: put_list_reorder_def checkListAccess_def findById_list_def
        findById_board_def edit_denied_def reorder_step_def list_pre_save_def
        demo_db_def Let_def)
  from T have a: "put_list_reorder demo_db 1 10 0 = (fail 400 ''Validation error'', demo_db)"
    by (simp add: validation_error_def)
  from T e have b: "map l_order (filter (\<lambda>x. l_board x = 9)
        (lists (list_create ''First'' 9 None None 1 1 demo_db))) = [0]" by blast
  from r have c: "success (fst (put_list_reorder demo_db 1 10 1))" by (simp add: ok_def)
  from r have d: "map l_order (lists (snd (put_list_reorder demo_db 1 10 1))) = [1, 0, 0, 1]"
    by simp
  from a b c d show ?thesis by (simp only: simp_thms)
qed

end
